theory Spec2Isabelle
  imports Complex_Main "HOL-Library.Sublist"
begin

section \<open>Data model (app/models.py)\<close>

text \<open>
  Every SQLModel table class is a record; a table is the list of its rows in storage
  order. Python \<open>int\<close> is \<open>int\<close>, \<open>Optional[...]\<close> is \<open>option\<close>. Python
  \<open>float\<close> values are read as exact rationals: the binary rounding of \<open>+\<close> and
  \<open>*\<close> is not modelled. Strings are byte strings (UTF-8).
\<close>

record user =
  u_id :: int
  u_username :: string
  u_password_hash :: string
  u_name :: string

record ingredient =
  i_id :: int
  i_name :: string
  i_calories :: rat
  i_protein :: rat
  i_fiber :: rat
  i_sugar :: rat
  i_icon_filename :: "string option"
  i_bowl_image_filename :: "string option"
  i_is_drizzle :: bool

record bowl =
  b_id :: int
  b_name :: string
  b_user_id :: int
  b_saved :: bool

record bowl_ingredient =
  bi_id :: int
  bi_bowl_id :: int
  bi_ingredient_id :: int
  bi_quantity :: rat

record user_ingredient_nutrition =
  un_id :: int
  un_user_id :: int
  un_ingredient_id :: int
  un_calories :: rat
  un_protein :: rat
  un_fiber :: rat
  un_sugar :: rat

text \<open>
  The database behind a \<open>Session\<close>: the five tables, and for each table the code
  inserts into, the last value of its primary-key sequence (a new row gets the next one).
\<close>

record db =
  user_table :: "user list"
  ingredient_table :: "ingredient list"
  bowl_table :: "bowl list"
  bowl_ingredient_table :: "bowl_ingredient list"
  user_ingredient_nutrition_table :: "user_ingredient_nutrition list"
  bowl_seq :: int
  bowl_ingredient_seq :: int
  user_ingredient_nutrition_seq :: int

text \<open>Exceptions the handlers raise: \<open>HTTPException(status_code, detail)\<close>, the
  422 of a request that fails its pydantic \<open>Field\<close> constraints, and Python's
  \<open>TypeError\<close> for a call with a missing positional argument.\<close>

datatype exn =
  HTTPException int string
  | RequestValidationError
  | TypeError

text \<open>\<open>session.get(Model, id)\<close>: the row with that primary key.\<close>

definition session_get_ingredient :: "db \<Rightarrow> int \<Rightarrow> ingredient option" where
  "session_get_ingredient s k = find (\<lambda>i. i_id i = k) (ingredient_table s)"

definition session_get_bowl :: "db \<Rightarrow> int \<Rightarrow> bowl option" where
  "session_get_bowl s k = find (\<lambda>b. b_id b = k) (bowl_table s)"

section \<open>Strings and numbers of the Python runtime\<close>

text \<open>
  \<open>str.lower()\<close> on the ASCII letters. No character outside ASCII lowers to one of the
  letters of the unit patterns below, and no byte of a multi-byte UTF-8 sequence is an
  ASCII letter, so for those patterns the byte-wise function agrees with Python's.
\<close>

definition lower_char :: "char \<Rightarrow> char" where
  "lower_char c =
     (case map_of (zip ''ABCDEFGHIJKLMNOPQRSTUVWXYZ'' ''abcdefghijklmnopqrstuvwxyz'') c of
        Some l \<Rightarrow> l
      | None \<Rightarrow> c)"

definition str_lower :: "string \<Rightarrow> string" where
  "str_lower s = map lower_char s"

text \<open>\<open>p in s\<close> on strings: \<open>p\<close> occurs in \<open>s\<close> as a contiguous run.\<close>

fun str_in :: "string \<Rightarrow> string \<Rightarrow> bool" where
  "str_in p [] = (p = [])"
| "str_in p (c # cs) = (prefix p (c # cs) \<or> str_in p cs)"



text \<open>\<open>round(x, 2)\<close>: to the nearest multiple of 1/100, a tie going to the even one.\<close>

definition round_half_even :: "rat \<Rightarrow> int" where
  "round_half_even x =
     (let f = \<lfloor>x\<rfloor>; d = x - of_int f
      in if d < 1 / 2 then f
         else if 1 / 2 < d then f + 1
         else if even f then f else f + 1)"

definition round2 :: "rat \<Rightarrow> rat" where
  "round2 x = of_int (round_half_even (x * 100)) / 100"

section \<open>Nutrition aggregation (app/routers/bowls\_ui.py)\<close>

record nutrition =
  n_calories :: rat
  n_protein :: rat
  n_fiber :: rat
  n_sugar :: rat

definition get_ingredient_nutrition :: "int \<Rightarrow> int \<Rightarrow> db \<Rightarrow> nutrition" where
  "get_ingredient_nutrition ingredient_id user_id s =
     (case find (\<lambda>n. un_user_id n = user_id \<and> un_ingredient_id n = ingredient_id)
             (user_ingredient_nutrition_table s) of
        Some user_nutrition \<Rightarrow>
          \<lparr>n_calories = un_calories user_nutrition, n_protein = un_protein user_nutrition,
           n_fiber = un_fiber user_nutrition, n_sugar = un_sugar user_nutrition\<rparr>
      | None \<Rightarrow>
          (case session_get_ingredient s ingredient_id of
             None \<Rightarrow> \<lparr>n_calories = 0, n_protein = 0, n_fiber = 0, n_sugar = 0\<rparr>
           | Some ing \<Rightarrow>
               \<lparr>n_calories = i_calories ing, n_protein = i_protein ing,
                n_fiber = i_fiber ing, n_sugar = i_sugar ing\<rparr>))"

text \<open>The \<open>if\<close>/\<open>elif\<close> chain that sets \<open>unit\<close> inside the loop of
  \<open>calculate_nutrition\<close>.\<close>

definition unit_label :: "string \<Rightarrow> rat \<Rightarrow> string" where
  "unit_label name quantity =
     (let l = str_lower name in
      if str_in ''yogurt'' l then (if quantity = 1 then ''cup'' else ''cups'')
      else if str_in ''honey'' l then ''tbsp''
      else if str_in ''peanut'' l then ''tbsp''
      else if str_in ''nuts'' l then (if quantity = 1 then ''cup'' else ''cups'')
      else if str_in ''strawberry'' l \<and> \<not> str_in ''yogurt'' l
        then (if quantity = 1 then ''strawberry'' else ''strawberries'')
      else if str_in ''blueberr'' l then (if quantity = 1 then ''cup'' else ''cups'')
      else if str_in ''banana'' l
        then (if quantity = 1 then ''medium banana'' else ''medium bananas'')
      else '''')"

text \<open>One entry of the \<open>ingredients\<close> list of the result.\<close>

record ingredient_detail =
  d_id :: int
  d_name :: string
  d_quantity :: rat
  d_unit :: string
  d_calories :: rat
  d_protein :: rat
  d_fiber :: rat
  d_sugar :: rat
  d_icon_filename :: "string option"
  d_bowl_image_filename :: "string option"
  d_is_drizzle :: bool

text \<open>The local variables the loop updates.\<close>

record loop_state =
  acc_calories :: rat
  acc_protein :: rat
  acc_fiber :: rat
  acc_sugar :: rat
  ingredients_list :: "ingredient_detail list"

record nutrition_result =
  ingredients :: "ingredient_detail list"
  total_calories :: rat
  total_protein :: rat
  total_fiber :: rat
  total_sugar :: rat
  tags :: "string list"

fun nutrition_loop :: "db \<Rightarrow> int \<Rightarrow> bowl_ingredient list \<Rightarrow> loop_state \<Rightarrow> loop_state" where
  "nutrition_loop s user_id [] st = st"
| "nutrition_loop s user_id (bi # rest) st =
     (case session_get_ingredient s (bi_ingredient_id bi) of
        None \<Rightarrow> nutrition_loop s user_id rest st
      | Some ing \<Rightarrow>
          (let nutrition = get_ingredient_nutrition (bi_ingredient_id bi) user_id s;
               calories = n_calories nutrition * bi_quantity bi;
               protein = n_protein nutrition * bi_quantity bi;
               fiber = n_fiber nutrition * bi_quantity bi;
               sugar = n_sugar nutrition * bi_quantity bi;
               unit = unit_label (i_name ing) (bi_quantity bi)
           in nutrition_loop s user_id rest
                \<lparr>acc_calories = acc_calories st + calories,
                 acc_protein = acc_protein st + protein,
                 acc_fiber = acc_fiber st + fiber,
                 acc_sugar = acc_sugar st + sugar,
                 ingredients_list = ingredients_list st @
                   [\<lparr>d_id = i_id ing, d_name = i_name ing, d_quantity = bi_quantity bi,
                     d_unit = unit,
                     d_calories = round2 calories, d_protein = round2 protein,
                     d_fiber = round2 fiber, d_sugar = round2 sugar,
                     d_icon_filename = i_icon_filename ing,
                     d_bowl_image_filename = i_bowl_image_filename ing,
                     d_is_drizzle = i_is_drizzle ing\<rparr>]\<rparr>))"

definition protein_tag :: "rat \<Rightarrow> string" where
  "protein_tag v =
     (if v \<ge> 20 then ''High Protein''
      else if v \<ge> 10 then ''Moderate Protein''
      else ''Low Protein'')"

definition fiber_tag :: "rat \<Rightarrow> string" where
  "fiber_tag v =
     (if v \<ge> 6 then ''High Fiber''
      else if v \<ge> 3 then ''Moderate Fiber''
      else ''Low Fiber'')"

definition sugar_tag :: "rat \<Rightarrow> string" where
  "sugar_tag v =
     (if v \<ge> 20 then ''High Sugar''
      else if v \<ge> 10 then ''Moderate Sugar''
      else ''Low Sugar'')"

definition calculate_nutrition :: "int \<Rightarrow> int \<Rightarrow> db \<Rightarrow> nutrition_result" where
  "calculate_nutrition bowl_id user_id s =
     (let bowl_ingredients = filter (\<lambda>bi. bi_bowl_id bi = bowl_id) (bowl_ingredient_table s);
          st = nutrition_loop s user_id bowl_ingredients
                 \<lparr>acc_calories = 0, acc_protein = 0, acc_fiber = 0, acc_sugar = 0,
                  ingredients_list = []\<rparr>
      in \<lparr>ingredients = ingredients_list st,
          total_calories = round2 (acc_calories st),
          total_protein = round2 (acc_protein st),
          total_fiber = round2 (acc_fiber st),
          total_sugar = round2 (acc_sugar st),
          tags = [protein_tag (acc_protein st), fiber_tag (acc_fiber st),
                  sugar_tag (acc_sugar st)]\<rparr>)"

section \<open>Authentication (app/auth.py)\<close>

record request =
  cookies :: "string \<rightharpoonup> string"

text \<open>\<open>not username\<close> holds for a missing cookie and for an empty one.\<close>

definition get_current_user :: "request \<Rightarrow> db \<Rightarrow> exn + user" where
  "get_current_user request s =
     (case cookies request ''username'' of
        None \<Rightarrow> Inl (HTTPException 401 ''Not authenticated'')
      | Some username \<Rightarrow>
          if username = [] then Inl (HTTPException 401 ''Not authenticated'')
          else (case find (\<lambda>u. u_username u = username) (user_table s) of
                  None \<Rightarrow> Inl (HTTPException 401 ''User not found'')
                | Some user \<Rightarrow> Inr user))"

definition get_optional_user :: "request \<Rightarrow> db \<Rightarrow> user option" where
  "get_optional_user request s =
     (case cookies request ''username'' of
        None \<Rightarrow> None
      | Some username \<Rightarrow>
          if username = [] then None
          else find (\<lambda>u. u_username u = username) (user_table s))"

section \<open>Writes through the session\<close>


definition session_delete_bowl :: "db \<Rightarrow> bowl \<Rightarrow> db" where
  "session_delete_bowl s b =
     s\<lparr>bowl_table := filter (\<lambda>r. b_id r \<noteq> b_id b) (bowl_table s)\<rparr>"

definition session_add_bowl :: "db \<Rightarrow> string \<Rightarrow> int \<Rightarrow> bool \<Rightarrow> bowl \<times> db" where
  "session_add_bowl s name user_id saved =
     (let b = \<lparr>b_id = bowl_seq s + 1, b_name = name, b_user_id = user_id, b_saved = saved\<rparr>
      in (b, s\<lparr>bowl_table := bowl_table s @ [b], bowl_seq := bowl_seq s + 1\<rparr>))"

definition session_update_bowl_ingredient :: "db \<Rightarrow> bowl_ingredient \<Rightarrow> db" where
  "session_update_bowl_ingredient s bi =
     s\<lparr>bowl_ingredient_table :=
         map (\<lambda>r. if bi_id r = bi_id bi then bi else r) (bowl_ingredient_table s)\<rparr>"

definition session_delete_bowl_ingredient :: "db \<Rightarrow> bowl_ingredient \<Rightarrow> db" where
  "session_delete_bowl_ingredient s bi =
     s\<lparr>bowl_ingredient_table :=
         filter (\<lambda>r. bi_id r \<noteq> bi_id bi) (bowl_ingredient_table s)\<rparr>"

definition session_add_bowl_ingredient :: "db \<Rightarrow> int \<Rightarrow> int \<Rightarrow> rat \<Rightarrow> db" where
  "session_add_bowl_ingredient s bowl_id ingredient_id quantity =
     s\<lparr>bowl_ingredient_table := bowl_ingredient_table s @
         [\<lparr>bi_id = bowl_ingredient_seq s + 1, bi_bowl_id = bowl_id,
           bi_ingredient_id = ingredient_id, bi_quantity = quantity\<rparr>],
       bowl_ingredient_seq := bowl_ingredient_seq s + 1\<rparr>"



text \<open>\<open>select(BowlIngredient).where(bowl_id == ..., ingredient_id == ...).first()\<close>\<close>

definition select_bowl_ingredient :: "db \<Rightarrow> int \<Rightarrow> int \<Rightarrow> bowl_ingredient option" where
  "select_bowl_ingredient s bowl_id ingredient_id =
     find (\<lambda>bi. bi_bowl_id bi = bowl_id \<and> bi_ingredient_id bi = ingredient_id)
       (bowl_ingredient_table s)"

section \<open>JSON API (app/routers/bowls\_api.py)\<close>

definition api_verify_bowl_access :: "bowl option \<Rightarrow> user \<Rightarrow> string \<Rightarrow> string \<Rightarrow> exn + bowl" where
  "api_verify_bowl_access bowl current_user not_found_detail unauthorized_detail =
     (case bowl of
        None \<Rightarrow> Inl (HTTPException 404 not_found_detail)
      | Some b \<Rightarrow>
          if b_user_id b \<noteq> u_id current_user then Inl (HTTPException 401 unauthorized_detail)
          else Inr b)"

definition get_and_verify_bowl :: "int \<Rightarrow> user \<Rightarrow> db \<Rightarrow> string \<Rightarrow> exn + bowl" where
  "get_and_verify_bowl bowl_id current_user s unauthorized_detail =
     api_verify_bowl_access (session_get_bowl s bowl_id) current_user
       ''Bowl not found'' unauthorized_detail"

definition verify_ingredient_exists :: "int \<Rightarrow> db \<Rightarrow> exn + ingredient" where
  "verify_ingredient_exists ingredient_id s =
     (case session_get_ingredient s ingredient_id of
        None \<Rightarrow> Inl (HTTPException 404 ''Ingredient not found'')
      | Some ing \<Rightarrow> Inr ing)"

definition delete_bowl_ingredients :: "int \<Rightarrow> db \<Rightarrow> db" where
  "delete_bowl_ingredients bowl_id s =
     fold (\<lambda>bi s'. session_delete_bowl_ingredient s' bi)
       (filter (\<lambda>bi. bi_bowl_id bi = bowl_id) (bowl_ingredient_table s)) s"

datatype api_response =
  BowlResponse int string int bool
  | SaveBowlResponse int bool
  | AddIngredientResponse int
  | RemoveIngredientResponse int
  | NoContent

text \<open>The request models; a handler runs only on a request that meets the \<open>Field\<close>
  and \<open>Path\<close> constraints of its parameters, any other is answered 422.\<close>

record add_ingredient_request =
  air_bowl_id :: int
  air_ingredient_id :: int
  air_quantity :: rat


definition get_bowl :: "int \<Rightarrow> db \<Rightarrow> user \<Rightarrow> (exn + api_response) \<times> db" where
  "get_bowl bowl_id s current_user =
     (if \<not> bowl_id \<ge> 1 then (Inl RequestValidationError, s)
      else case get_and_verify_bowl bowl_id current_user s
                  ''Not authorized to access this bowl'' of
        Inl e \<Rightarrow> (Inl e, s)
      | Inr bowl \<Rightarrow>
          (Inr (BowlResponse (b_id bowl) (b_name bowl) (b_user_id bowl) (b_saved bowl)), s))"



definition add_ingredient ::
  "add_ingredient_request \<Rightarrow> db \<Rightarrow> user \<Rightarrow> (exn + api_response) \<times> db" where
  "add_ingredient request s current_user =
     (if \<not> (air_bowl_id request \<ge> 1 \<and> air_ingredient_id request \<ge> 1 \<and> air_quantity request > 0)
      then (Inl RequestValidationError, s)
      else case get_and_verify_bowl (air_bowl_id request) current_user s
                  ''Not authorized to modify this bowl'' of
        Inl e \<Rightarrow> (Inl e, s)
      | Inr bowl \<Rightarrow>
          (case verify_ingredient_exists (air_ingredient_id request) s of
             Inl e \<Rightarrow> (Inl e, s)
           | Inr ing \<Rightarrow>
               (let s' =
                  (case select_bowl_ingredient s (air_bowl_id request) (air_ingredient_id request) of
                     Some existing \<Rightarrow>
                       session_update_bowl_ingredient s
                         (existing\<lparr>bi_quantity := air_quantity request\<rparr>)
                   | None \<Rightarrow>
                       session_add_bowl_ingredient s (air_bowl_id request)
                         (air_ingredient_id request) (air_quantity request))
                in (Inr (AddIngredientResponse (air_bowl_id request)), s'))))"


definition api_delete_bowl :: "int \<Rightarrow> db \<Rightarrow> user \<Rightarrow> (exn + api_response) \<times> db" where
  "api_delete_bowl bowl_id s current_user =
     (if \<not> bowl_id \<ge> 1 then (Inl RequestValidationError, s)
      else case get_and_verify_bowl bowl_id current_user s
                  ''Not authorized to delete this bowl'' of
        Inl e \<Rightarrow> (Inl e, s)
      | Inr bowl \<Rightarrow>
          (Inr NoContent, session_delete_bowl (delete_bowl_ingredients bowl_id s) bowl))"

section \<open>HTML front end (app/routers/bowls\_ui.py)\<close>

definition ui_verify_bowl_access :: "bowl option \<Rightarrow> user \<Rightarrow> string \<Rightarrow> string \<Rightarrow> exn + bowl" where
  "ui_verify_bowl_access bowl current_user not_found_detail unauthorized_detail =
     (case bowl of
        None \<Rightarrow> Inl (HTTPException 404 not_found_detail)
      | Some b \<Rightarrow>
          if b_user_id b \<noteq> u_id current_user then Inl (HTTPException 404 unauthorized_detail)
          else Inr b)"

definition get_saved_bowls :: "int \<Rightarrow> db \<Rightarrow> bowl list" where
  "get_saved_bowls user_id s =
     filter (\<lambda>b. b_user_id b = user_id \<and> b_saved b = True) (bowl_table s)"

definition get_or_create_unsaved_bowl :: "int \<Rightarrow> db \<Rightarrow> bowl \<times> db" where
  "get_or_create_unsaved_bowl user_id s =
     (case find (\<lambda>b. b_user_id b = user_id \<and> b_saved b = False) (bowl_table s) of
        Some bowl \<Rightarrow> (bowl, s)
      | None \<Rightarrow> session_add_bowl s ''My Bowl'' user_id False)"

text \<open>
  What a handler hands to its template: the bowl, its nutrition, the saved bowls. The
  catalog listing that two of the pages also show is left out.
\<close>

datatype ui_response =
  BowlSection bowl nutrition_result
  | BowlView bowl nutrition_result
  | SavedBowls "bowl list"
  | BowlNameEdit bowl
  | BowlSectionAndSavedBowls bowl nutrition_result "bowl list"
  | IngredientListAndBowlSection bowl nutrition_result

text \<open>
  The block \<open>if bowl_id: bowl = verify_bowl_access(session.get(Bowl, bowl_id), ...)
  else: bowl = get_or_create_unsaved_bowl(...)\<close> that \<open>get_bowl_view\<close>,
  \<open>add_ingredient_to_bowl\<close> and \<open>update_ingredient_htmx\<close> share. \<open>if bowl_id:\<close>
  on an \<open>Optional[int]\<close> is false for \<open>None\<close> and for 0.
\<close>

definition bowl_for_request :: "int option \<Rightarrow> db \<Rightarrow> user \<Rightarrow> (exn + bowl) \<times> db" where
  "bowl_for_request bowl_id s current_user =
     (if bowl_id \<noteq> None \<and> bowl_id \<noteq> Some 0
      then (ui_verify_bowl_access (session_get_bowl s (the bowl_id)) current_user
              ''Bowl not found'' ''Not authorized to access this bowl'', s)
      else (case get_or_create_unsaved_bowl (u_id current_user) s of
              (bowl, s') \<Rightarrow> (Inr bowl, s')))"


definition ui_delete_bowl :: "int \<Rightarrow> db \<Rightarrow> user \<Rightarrow> (exn + ui_response) \<times> db" where
  "ui_delete_bowl bowl_id s current_user =
     (case ui_verify_bowl_access (session_get_bowl s bowl_id) current_user
             ''Bowl not found'' ''Not authorized to access this bowl'' of
        Inl e \<Rightarrow> (Inl e, s)
      | Inr bowl \<Rightarrow>
          (let user_id = u_id current_user;
               s1 = fold (\<lambda>bi s'. session_delete_bowl_ingredient s' bi)
                      (filter (\<lambda>bi. bi_bowl_id bi = bowl_id) (bowl_ingredient_table s)) s;
               s2 = session_delete_bowl s1 bowl
           in (Inr (SavedBowls (get_saved_bowls user_id s2)), s2)))"

definition add_ingredient_to_bowl ::
  "int option \<Rightarrow> int \<Rightarrow> rat \<Rightarrow> db \<Rightarrow> user \<Rightarrow> (exn + ui_response) \<times> db" where
  "add_ingredient_to_bowl bowl_id ingredient_id quantity s current_user =
     (case bowl_for_request bowl_id s current_user of
        (Inl e, s1) \<Rightarrow> (Inl e, s1)
      | (Inr bowl, s1) \<Rightarrow>
          (case session_get_ingredient s1 ingredient_id of
             None \<Rightarrow> (Inl (HTTPException 404 ''Ingredient not found''), s1)
           | Some ing \<Rightarrow>
               (let s2 =
                  (case select_bowl_ingredient s1 (b_id bowl) ingredient_id of
                     Some existing \<Rightarrow>
                       session_update_bowl_ingredient s1 (existing\<lparr>bi_quantity := quantity\<rparr>)
                   | None \<Rightarrow>
                       session_add_bowl_ingredient s1 (b_id bowl) ingredient_id quantity)
                in (Inr (BowlSection bowl
                          (calculate_nutrition (b_id bowl) (u_id current_user) s2)), s2))))"

definition remove_ingredient_from_bowl ::
  "int \<Rightarrow> int \<Rightarrow> db \<Rightarrow> user \<Rightarrow> (exn + ui_response) \<times> db" where
  "remove_ingredient_from_bowl bowl_id ingredient_id s current_user =
     (case ui_verify_bowl_access (session_get_bowl s bowl_id) current_user
             ''Bowl not found'' ''Not authorized to access this bowl'' of
        Inl e \<Rightarrow> (Inl e, s)
      | Inr bowl \<Rightarrow>
          (let s' =
             (case select_bowl_ingredient s bowl_id ingredient_id of
                Some bowl_ingredient \<Rightarrow> session_delete_bowl_ingredient s bowl_ingredient
              | None \<Rightarrow> s)
           in (Inr (BowlSection bowl (calculate_nutrition bowl_id (u_id current_user) s')),
               s')))"





section \<open>Notions of the specification\<close>

text \<open>The lines of a bowl, and among given lines those whose ingredient is still in the
  catalog, each paired with that ingredient.\<close>

definition spec_bowl_lines :: "db \<Rightarrow> int \<Rightarrow> bowl_ingredient list" where
  "spec_bowl_lines s bowl_id =
     filter (\<lambda>bi. bi_bowl_id bi = bowl_id) (bowl_ingredient_table s)"

definition spec_retained_lines ::
  "db \<Rightarrow> bowl_ingredient list \<Rightarrow> (bowl_ingredient \<times> ingredient) list" where
  "spec_retained_lines s lines =
     List.map_filter
       (\<lambda>bi. map_option (Pair bi) (session_get_ingredient s (bi_ingredient_id bi))) lines"

text \<open>Per-unit values of an ingredient for a user: the user's override if there is one,
  else the ingredient's defaults.\<close>

definition spec_per_unit :: "db \<Rightarrow> int \<Rightarrow> ingredient \<Rightarrow> nutrition" where
  "spec_per_unit s user_id ing =
     (case find (\<lambda>n. un_user_id n = user_id \<and> un_ingredient_id n = i_id ing)
             (user_ingredient_nutrition_table s) of
        Some ov \<Rightarrow> \<lparr>n_calories = un_calories ov, n_protein = un_protein ov,
                    n_fiber = un_fiber ov, n_sugar = un_sugar ov\<rparr>
      | None \<Rightarrow> \<lparr>n_calories = i_calories ing, n_protein = i_protein ing,
                 n_fiber = i_fiber ing, n_sugar = i_sugar ing\<rparr>)"

text \<open>The unrounded value of one nutrient of a line: per-unit value times quantity.\<close>

definition spec_line_value ::
  "(nutrition \<Rightarrow> rat) \<Rightarrow> db \<Rightarrow> int \<Rightarrow> bowl_ingredient \<times> ingredient \<Rightarrow> rat" where
  "spec_line_value field s user_id line =
     field (spec_per_unit s user_id (snd line)) * bi_quantity (fst line)"

definition spec_line_detail ::
  "db \<Rightarrow> int \<Rightarrow> bowl_ingredient \<times> ingredient \<Rightarrow> ingredient_detail" where
  "spec_line_detail s user_id line =
     \<lparr>d_id = i_id (snd line), d_name = i_name (snd line), d_quantity = bi_quantity (fst line),
      d_unit = unit_label (i_name (snd line)) (bi_quantity (fst line)),
      d_calories = round2 (spec_line_value n_calories s user_id line),
      d_protein = round2 (spec_line_value n_protein s user_id line),
      d_fiber = round2 (spec_line_value n_fiber s user_id line),
      d_sugar = round2 (spec_line_value n_sugar s user_id line),
      d_icon_filename = i_icon_filename (snd line),
      d_bowl_image_filename = i_bowl_image_filename (snd line),
      d_is_drizzle = i_is_drizzle (snd line)\<rparr>"

text \<open>The unit rule table as the specification words it: rules (pattern, excluded
  patterns, singular, plural) tried from the top, the first that matches wins.\<close>

definition spec_unit_rules :: "(string \<times> string list \<times> string \<times> string) list" where
  "spec_unit_rules =
     [(''yogurt'', [], ''cup'', ''cups''),
      (''honey'', [], ''tbsp'', ''tbsp''),
      (''peanut'', [], ''tbsp'', ''tbsp''),
      (''nuts'', [], ''cup'', ''cups''),
      (''strawberry'', [''yogurt''], ''strawberry'', ''strawberries''),
      (''blueberr'', [], ''cup'', ''cups''),
      (''banana'', [], ''medium banana'', ''medium bananas'')]"

fun spec_first_match ::
  "(string \<times> string list \<times> string \<times> string) list \<Rightarrow> string \<Rightarrow> rat \<Rightarrow> string" where
  "spec_first_match [] l q = []"
| "spec_first_match ((p, excluded, singular, plural) # rules) l q =
     (if sublist p l \<and> list_all (\<lambda>e. \<not> sublist e l) excluded
      then (if q = 1 then singular else plural)
      else spec_first_match rules l q)"

definition spec_unit_label :: "string \<Rightarrow> rat \<Rightarrow> string" where
  "spec_unit_label name q = spec_first_match spec_unit_rules (str_lower name) q"


text \<open>The quantities of the lines of a pair of bowl and ingredient.\<close>

definition spec_quantities :: "db \<Rightarrow> int \<Rightarrow> int \<Rightarrow> rat list" where
  "spec_quantities s bowl_id ingredient_id =
     map bi_quantity
       (filter (\<lambda>bi. bi_bowl_id bi = bowl_id \<and> bi_ingredient_id bi = ingredient_id)
          (bowl_ingredient_table s))"

text \<open>The user's working bowls: the bowls the user owns that are not saved.\<close>

definition spec_working_bowls :: "db \<Rightarrow> int \<Rightarrow> bowl list" where
  "spec_working_bowls s user_id =
     filter (\<lambda>b. b_user_id b = user_id \<and> \<not> b_saved b) (bowl_table s)"


text \<open>The result of aggregating no line at all.\<close>

definition spec_empty_result :: nutrition_result where
  "spec_empty_result =
     \<lparr>ingredients = [], total_calories = 0, total_protein = 0, total_fiber = 0,
      total_sugar = 0, tags = [''Low Protein'', ''Low Fiber'', ''Low Sugar'']\<rparr>"





section \<open>A small database\<close>

text \<open>Two users, three catalog entries with the values of app/seed.py, one bowl of the
  first user with a line whose ingredient is gone, and two overrides of the first user
  (one of them for the ingredient that is gone).\<close>

definition ann :: user where
  "ann = \<lparr>u_id = 1, u_username = ''ann'', u_password_hash = ''h1'', u_name = ''Ann''\<rparr>"

definition bob :: user where
  "bob = \<lparr>u_id = 2, u_username = ''bob'', u_password_hash = ''h2'', u_name = ''Bob''\<rparr>"

definition example_db :: db where
  "example_db =
     \<lparr>user_table = [ann, bob],
      ingredient_table =
        [\<lparr>i_id = 3, i_name = ''Strawberry Yogurt'', i_calories = 160, i_protein = 7,
          i_fiber = 1 / 2, i_sugar = 23, i_icon_filename = None,
          i_bowl_image_filename = None, i_is_drizzle = False\<rparr>,
         \<lparr>i_id = 4, i_name = ''Banana'', i_calories = 215 / 2, i_protein = 13 / 10,
          i_fiber = 3, i_sugar = 29 / 2, i_icon_filename = Some ''banana_icon.PNG'',
          i_bowl_image_filename = Some ''banana_slices.PNG'', i_is_drizzle = False\<rparr>,
         \<lparr>i_id = 7, i_name = ''Honey'', i_calories = 64, i_protein = 0,
          i_fiber = 0, i_sugar = 17, i_icon_filename = Some ''honey_bottle.PNG'',
          i_bowl_image_filename = Some ''honey_drizzle.PNG'', i_is_drizzle = True\<rparr>],
      bowl_table = [\<lparr>b_id = 1, b_name = ''Breakfast'', b_user_id = 1, b_saved = False\<rparr>],
      bowl_ingredient_table =
        [\<lparr>bi_id = 1, bi_bowl_id = 1, bi_ingredient_id = 4, bi_quantity = 2\<rparr>,
         \<lparr>bi_id = 2, bi_bowl_id = 1, bi_ingredient_id = 9, bi_quantity = 1\<rparr>,
         \<lparr>bi_id = 3, bi_bowl_id = 1, bi_ingredient_id = 3, bi_quantity = 2\<rparr>],
      user_ingredient_nutrition_table =
        [\<lparr>un_id = 1, un_user_id = 1, un_ingredient_id = 4, un_calories = 200,
          un_protein = 1, un_fiber = 3, un_sugar = 14\<rparr>,
         \<lparr>un_id = 2, un_user_id = 1, un_ingredient_id = 9, un_calories = 50,
          un_protein = 1, un_fiber = 1, un_sugar = 1\<rparr>],
      bowl_seq = 1, bowl_ingredient_seq = 3, user_ingredient_nutrition_seq = 2\<rparr>"

section \<open>The aggregation loop\<close>

lemma session_get_ingredient_id:
  "session_get_ingredient s k = Some ing \<Longrightarrow> i_id ing = k"
  by (auto simp: session_get_ingredient_def find_Some_iff)

lemma get_ingredient_nutrition_present:
  "session_get_ingredient s k = Some ing \<Longrightarrow>
   get_ingredient_nutrition k user_id s = spec_per_unit s user_id ing"
  by (frule session_get_ingredient_id)
     (simp add: get_ingredient_nutrition_def spec_per_unit_def split: option.splits)

lemma spec_retained_lines_Nil: "spec_retained_lines s [] = []"
  by (simp add: spec_retained_lines_def map_filter_simps)

lemma spec_retained_lines_absent:
  "session_get_ingredient s (bi_ingredient_id bi) = None \<Longrightarrow>
   spec_retained_lines s (bi # rest) = spec_retained_lines s rest"
  by (simp add: spec_retained_lines_def map_filter_simps)

lemma spec_retained_lines_present:
  "session_get_ingredient s (bi_ingredient_id bi) = Some ing \<Longrightarrow>
   spec_retained_lines s (bi # rest) = (bi, ing) # spec_retained_lines s rest"
  by (simp add: spec_retained_lines_def map_filter_simps)


lemma nutrition_loop_eq:
  "nutrition_loop s user_id lines st =
     \<lparr>acc_calories = acc_calories st +
        sum_list (map (spec_line_value n_calories s user_id) (spec_retained_lines s lines)),
      acc_protein = acc_protein st +
        sum_list (map (spec_line_value n_protein s user_id) (spec_retained_lines s lines)),
      acc_fiber = acc_fiber st +
        sum_list (map (spec_line_value n_fiber s user_id) (spec_retained_lines s lines)),
      acc_sugar = acc_sugar st +
        sum_list (map (spec_line_value n_sugar s user_id) (spec_retained_lines s lines)),
      ingredients_list = ingredients_list st @
        map (spec_line_detail s user_id) (spec_retained_lines s lines)\<rparr>"
proof (induction lines arbitrary: st)
  case Nil
  show ?case by (simp add: spec_retained_lines_Nil)
next
  case (Cons bi rest)
  show ?case
  proof (cases "session_get_ingredient s (bi_ingredient_id bi)")
    case None
    then show ?thesis
      by (simp add: Cons.IH spec_retained_lines_absent)
  next
    case (Some ing)
    then show ?thesis
      by (simp add: Cons.IH spec_retained_lines_present get_ingredient_nutrition_present
          spec_line_value_def spec_line_detail_def Let_def add.assoc)
  qed
qed

lemma calculate_nutrition_eq:
  "calculate_nutrition bowl_id user_id s =
     (let kept = spec_retained_lines s (spec_bowl_lines s bowl_id);
          sum_of = (\<lambda>field. sum_list (map (spec_line_value field s user_id) kept))
      in \<lparr>ingredients = map (spec_line_detail s user_id) kept,
          total_calories = round2 (sum_of n_calories),
          total_protein = round2 (sum_of n_protein),
          total_fiber = round2 (sum_of n_fiber),
          total_sugar = round2 (sum_of n_sugar),
          tags = [protein_tag (sum_of n_protein), fiber_tag (sum_of n_fiber),
                  sugar_tag (sum_of n_sugar)]\<rparr>)"
  by (simp add: calculate_nutrition_def nutrition_loop_eq spec_bowl_lines_def Let_def)

lemma round2_zero: "round2 0 = 0"
  by (simp add: round2_def round_half_even_def)

lemma calculate_nutrition_no_lines:
  "spec_bowl_lines s bowl_id = [] \<Longrightarrow> calculate_nutrition bowl_id user_id s = spec_empty_result"
  by (simp add: calculate_nutrition_eq spec_retained_lines_Nil spec_empty_result_def
      round2_zero protein_tag_def fiber_tag_def sugar_tag_def)

lemma str_in_sublist: "str_in p l = sublist p l"
  by (induction l) (simp_all add: sublist_Cons_right)

lemma unit_label_spec: "unit_label name q = spec_unit_label name q"
  by (simp add: unit_label_def spec_unit_label_def spec_unit_rules_def str_in_sublist Let_def)

lemmas example_defs =
  example_db_def ann_def bob_def session_get_ingredient_def session_get_bowl_def
  spec_bowl_lines_def spec_retained_lines_def map_filter_simps spec_per_unit_def
  spec_line_value_def spec_line_detail_def round2_def round_half_even_def





text \<open>
  C4. The unit of every retained line is what the ordered rule table gives for the
  lower-cased name of its ingredient and its quantity: the first rule whose pattern
  occurs in the name wins, and the singular form is taken exactly when the quantity is 1.
  Strawberry Yogurt with quantity 2 has unit cups, Strawberry with quantity 1 has unit
  strawberry, Honey has unit tbsp at any quantity.
\<close>

theorem unit_label_rule_table:
  "unit_label name q = spec_first_match spec_unit_rules (str_lower name) q
   \<and> map d_unit (ingredients (calculate_nutrition bowl_id user_id s)) =
       map (\<lambda>line. spec_first_match spec_unit_rules (str_lower (i_name (snd line)))
                     (bi_quantity (fst line)))
         (spec_retained_lines s (spec_bowl_lines s bowl_id))
   \<and> unit_label ''Strawberry Yogurt'' 2 = ''cups''
   \<and> unit_label ''Strawberry'' 1 = ''strawberry''
   \<and> unit_label ''Honey'' q = ''tbsp''"
proof -
  have table: "unit_label n x = spec_first_match spec_unit_rules (str_lower n) x" for n x
    using unit_label_spec [of n x] by (simp add: spec_unit_label_def)
  have "map d_unit (ingredients (calculate_nutrition bowl_id user_id s)) =
       map (\<lambda>line. spec_first_match spec_unit_rules (str_lower (i_name (snd line)))
                     (bi_quantity (fst line)))
         (spec_retained_lines s (spec_bowl_lines s bowl_id))"
    by (simp add: calculate_nutrition_eq Let_def spec_line_detail_def table comp_def)
  moreover have "unit_label ''Strawberry Yogurt'' 2 = ''cups''"
    by (simp add: unit_label_def str_lower_def lower_char_def)
  moreover have "unit_label ''Strawberry'' 1 = ''strawberry''"
    by (simp add: unit_label_def str_lower_def lower_char_def)
  moreover have "unit_label ''Honey'' q = ''tbsp''"
    by (simp add: unit_label_def str_lower_def lower_char_def)
  ultimately show ?thesis
    using table by simp
qed

theorem unit_label_rule_table_witness:
  "unit_label ''Blueberries'' 1 = ''cup''
   \<and> unit_label ''Peanut Butter'' 2 = ''tbsp''
   \<and> map d_unit (ingredients (calculate_nutrition 1 1 example_db)) = [''medium bananas'', ''cups'']"
  using unit_label_rule_table [of "''Blueberries''" 1 1 1 example_db]
    unit_label_rule_table [of "''Peanut Butter''" 2 1 1 example_db]
  by (simp add: example_defs spec_unit_rules_def str_lower_def lower_char_def sublist_code)

section \<open>The working bowl\<close>

lemma find_filter_hd:
  "find P xs = (case filter P xs of [] \<Rightarrow> None | x # rest \<Rightarrow> Some x)"
  by (induction xs) simp_all

lemma find_distinct_key:
  "distinct (map f xs) \<Longrightarrow> x \<in> set xs \<Longrightarrow> find (\<lambda>y. f y = f x) xs = Some x"
  by (induction xs) (auto simp: image_iff)

text \<open>
  C5. If the user has a bowl that is not saved, \<open>get_or_create_unsaved_bowl\<close> returns
  the first such bowl and changes nothing; otherwise it inserts exactly one bowl, named
  My Bowl and not saved, and returns it. A second call right after the first returns the
  same bowl (so the same id) and changes nothing, and a call never raises the number of
  the user's unsaved bowls above one unless it was already above.
\<close>

theorem get_or_create_unsaved_bowl_idempotent:
  "(spec_working_bowls s user_id = bowl # rest \<longrightarrow>
      get_or_create_unsaved_bowl user_id s = (bowl, s))
   \<and> (spec_working_bowls s user_id = [] \<longrightarrow>
        get_or_create_unsaved_bowl user_id s =
          (\<lparr>b_id = bowl_seq s + 1, b_name = ''My Bowl'', b_user_id = user_id, b_saved = False\<rparr>,
           s\<lparr>bowl_table := bowl_table s @
                [\<lparr>b_id = bowl_seq s + 1, b_name = ''My Bowl'', b_user_id = user_id,
                  b_saved = False\<rparr>],
              bowl_seq := bowl_seq s + 1\<rparr>))
   \<and> (case get_or_create_unsaved_bowl user_id s of
        (b1, s1) \<Rightarrow>
          get_or_create_unsaved_bowl user_id s1 = (b1, s1)
          \<and> b_id (fst (get_or_create_unsaved_bowl user_id s1)) = b_id b1
          \<and> b_user_id b1 = user_id \<and> \<not> b_saved b1
          \<and> length (spec_working_bowls s1 user_id) =
              max 1 (length (spec_working_bowls s user_id)))"
proof (cases "spec_working_bowls s user_id")
  case Nil
  then have none: "find (\<lambda>b. b_user_id b = user_id \<and> \<not> b_saved b) (bowl_table s) = None"
    by (simp add: find_filter_hd spec_working_bowls_def)
  have first: "get_or_create_unsaved_bowl user_id s =
          (\<lparr>b_id = bowl_seq s + 1, b_name = ''My Bowl'', b_user_id = user_id, b_saved = False\<rparr>,
           s\<lparr>bowl_table := bowl_table s @
                [\<lparr>b_id = bowl_seq s + 1, b_name = ''My Bowl'', b_user_id = user_id,
                  b_saved = False\<rparr>],
              bowl_seq := bowl_seq s + 1\<rparr>)"
    by (simp add: get_or_create_unsaved_bowl_def none session_add_bowl_def Let_def)
  have again: "find (\<lambda>b. b_user_id b = user_id \<and> \<not> b_saved b)
      (bowl_table s @ [\<lparr>b_id = bowl_seq s + 1, b_name = ''My Bowl'', b_user_id = user_id,
                  b_saved = False\<rparr>]) =
      Some \<lparr>b_id = bowl_seq s + 1, b_name = ''My Bowl'', b_user_id = user_id, b_saved = False\<rparr>"
    using Nil by (simp add: find_filter_hd spec_working_bowls_def)
  have second: "get_or_create_unsaved_bowl user_id
       (s\<lparr>bowl_table := bowl_table s @
                [\<lparr>b_id = bowl_seq s + 1, b_name = ''My Bowl'', b_user_id = user_id,
                  b_saved = False\<rparr>],
              bowl_seq := bowl_seq s + 1\<rparr>) =
          (\<lparr>b_id = bowl_seq s + 1, b_name = ''My Bowl'', b_user_id = user_id, b_saved = False\<rparr>,
           s\<lparr>bowl_table := bowl_table s @
                [\<lparr>b_id = bowl_seq s + 1, b_name = ''My Bowl'', b_user_id = user_id,
                  b_saved = False\<rparr>],
              bowl_seq := bowl_seq s + 1\<rparr>)"
    by (simp add: get_or_create_unsaved_bowl_def again)
  show ?thesis
    using Nil by (simp add: first second spec_working_bowls_def)
next
  case (Cons b bs)
  then have some: "find (\<lambda>b. b_user_id b = user_id \<and> \<not> b_saved b) (bowl_table s) = Some b"
    by (simp add: find_filter_hd spec_working_bowls_def)
  have "b \<in> set (spec_working_bowls s user_id)"
    using Cons by simp
  then have "b_user_id b = user_id \<and> \<not> b_saved b"
    by (simp add: spec_working_bowls_def)
  then show ?thesis
    using Cons by (simp add: get_or_create_unsaved_bowl_def some)
qed

theorem get_or_create_unsaved_bowl_idempotent_witness:
  "spec_working_bowls example_db 2 = []
   \<and> b_id (fst (get_or_create_unsaved_bowl 2 example_db)) = 2
   \<and> get_or_create_unsaved_bowl 2 (snd (get_or_create_unsaved_bowl 2 example_db)) =
       get_or_create_unsaved_bowl 2 example_db
   \<and> spec_working_bowls example_db 1 =
       [\<lparr>b_id = 1, b_name = ''Breakfast'', b_user_id = 1, b_saved = False\<rparr>]
   \<and> get_or_create_unsaved_bowl 1 example_db =
       (\<lparr>b_id = 1, b_name = ''Breakfast'', b_user_id = 1, b_saved = False\<rparr>, example_db)"
  using get_or_create_unsaved_bowl_idempotent [of example_db 2]
    get_or_create_unsaved_bowl_idempotent [of example_db 1
      "\<lparr>b_id = 1, b_name = ''Breakfast'', b_user_id = 1, b_saved = False\<rparr>" "[]"]
  by (simp add: example_db_def spec_working_bowls_def get_or_create_unsaved_bowl_def
      session_add_bowl_def)

section \<open>Authentication\<close>

text \<open>
  C10. The acting user is read off the plain value of the username cookie alone: two
  requests with the same value of that cookie get the same answer, and a request whose
  cookie is the (non-empty, unique) username of a stored user is answered with exactly
  that user. A request without the cookie, or with a cookie that is the username of no
  stored user, is refused with status 401 by \<open>get_current_user\<close> and gets no user from
  \<open>get_optional_user\<close>.
\<close>

theorem get_current_user_by_cookie:
  "(cookies request ''username'' = cookies request' ''username'' \<longrightarrow>
      get_current_user request s = get_current_user request' s
      \<and> get_optional_user request s = get_optional_user request' s)
   \<and> (u \<in> set (user_table s) \<and> distinct (map u_username (user_table s))
        \<and> u_username u \<noteq> [] \<and> cookies request ''username'' = Some (u_username u) \<longrightarrow>
        get_current_user request s = Inr u \<and> get_optional_user request s = Some u)
   \<and> (cookies request ''username'' = None
        \<or> (\<forall>v \<in> set (user_table s). cookies request ''username'' \<noteq> Some (u_username v)) \<longrightarrow>
        (\<exists>detail. get_current_user request s = Inl (HTTPException 401 detail))
        \<and> get_optional_user request s = None)"
proof (intro conjI impI)
  assume "cookies request ''username'' = cookies request' ''username''"
  then show "get_current_user request s = get_current_user request' s"
    and "get_optional_user request s = get_optional_user request' s"
    by (simp_all add: get_current_user_def get_optional_user_def)
next
  assume a: "u \<in> set (user_table s) \<and> distinct (map u_username (user_table s))
        \<and> u_username u \<noteq> [] \<and> cookies request ''username'' = Some (u_username u)"
  then have "find (\<lambda>y. u_username y = u_username u) (user_table s) = Some u"
    using find_distinct_key [of u_username "user_table s" u] by simp
  with a show "get_current_user request s = Inr u" and "get_optional_user request s = Some u"
    by (simp_all add: get_current_user_def get_optional_user_def)
next
  assume a: "cookies request ''username'' = None
        \<or> (\<forall>v \<in> set (user_table s). cookies request ''username'' \<noteq> Some (u_username v))"
  have none: "find (\<lambda>y. u_username y = n) (user_table s) = None"
    if "cookies request ''username'' = Some n" for n
    using a that by (auto simp: find_None_iff)
  show "\<exists>detail. get_current_user request s = Inl (HTTPException 401 detail)"
    by (auto simp: get_current_user_def none split: option.splits)
  show "get_optional_user request s = None"
    by (auto simp: get_optional_user_def none split: option.splits)
qed

theorem get_current_user_by_cookie_witness:
  "get_current_user \<lparr>cookies = [''username'' \<mapsto> ''bob'']\<rparr> example_db = Inr bob
   \<and> get_optional_user \<lparr>cookies = [''username'' \<mapsto> ''bob'']\<rparr> example_db = Some bob
   \<and> (\<exists>detail. get_current_user \<lparr>cookies = [''username'' \<mapsto> ''eve'']\<rparr> example_db =
         Inl (HTTPException 401 detail))
   \<and> get_optional_user \<lparr>cookies = [''username'' \<mapsto> ''eve'']\<rparr> example_db = None
   \<and> (\<exists>detail. get_current_user \<lparr>cookies = Map.empty\<rparr> example_db =
         Inl (HTTPException 401 detail))"
  using get_current_user_by_cookie
      [of "\<lparr>cookies = [''username'' \<mapsto> ''bob'']\<rparr>" "\<lparr>cookies = [''username'' \<mapsto> ''bob'']\<rparr>"
          example_db bob]
    get_current_user_by_cookie
      [of "\<lparr>cookies = [''username'' \<mapsto> ''eve'']\<rparr>" "\<lparr>cookies = [''username'' \<mapsto> ''eve'']\<rparr>"
          example_db bob]
    get_current_user_by_cookie
      [of "\<lparr>cookies = Map.empty\<rparr>" "\<lparr>cookies = Map.empty\<rparr>" example_db bob]
  by (simp add: example_db_def ann_def bob_def)

section \<open>One line for each bowl and ingredient\<close>






















section \<open>Deleting a bowl\<close>

lemma fold_session_delete_bowl_ingredient:
  "fold (\<lambda>bi s'. session_delete_bowl_ingredient s' bi) xs s =
     s\<lparr>bowl_ingredient_table :=
         filter (\<lambda>r. bi_id r \<notin> bi_id ` set xs) (bowl_ingredient_table s)\<rparr>"
proof (induction xs arbitrary: s)
  case Nil
  show ?case by simp
next
  case (Cons x xs)
  have "filter (\<lambda>r. bi_id r \<notin> bi_id ` set xs)
          (filter (\<lambda>r. bi_id r \<noteq> bi_id x) (bowl_ingredient_table s)) =
        filter (\<lambda>r. bi_id r \<notin> bi_id ` set (x # xs)) (bowl_ingredient_table s)"
    by (auto intro: filter_cong)
  moreover have "fold (\<lambda>bi s'. session_delete_bowl_ingredient s' bi) (x # xs) s =
      (session_delete_bowl_ingredient s x)\<lparr>bowl_ingredient_table :=
         filter (\<lambda>r. bi_id r \<notin> bi_id ` set xs)
           (bowl_ingredient_table (session_delete_bowl_ingredient s x))\<rparr>"
    by (simp add: Cons.IH)
  ultimately show ?case
    by (simp add: session_delete_bowl_ingredient_def)
qed

lemma delete_bowl_ingredients_lines:
  "spec_bowl_lines (delete_bowl_ingredients bowl_id s) bowl_id = []"
  by (auto simp: delete_bowl_ingredients_def fold_session_delete_bowl_ingredient
      spec_bowl_lines_def filter_empty_conv)

lemma delete_bowl_ingredients_bowl_table:
  "bowl_table (delete_bowl_ingredients bowl_id s) = bowl_table s"
  by (simp add: delete_bowl_ingredients_def fold_session_delete_bowl_ingredient)

lemma session_get_bowl_id: "session_get_bowl s k = Some b \<Longrightarrow> b_id b = k"
  by (auto simp: session_get_bowl_def find_Some_iff)

lemma session_delete_bowl_gone:
  "session_get_bowl (session_delete_bowl s b) (b_id b) = None"
  by (simp add: session_get_bowl_def session_delete_bowl_def find_None_iff)

lemma session_delete_bowl_lines:
  "spec_bowl_lines (session_delete_bowl s b) k = spec_bowl_lines s k"
  by (simp add: spec_bowl_lines_def session_delete_bowl_def)

lemma api_delete_bowl_cases:
  "(\<exists>e. api_delete_bowl bowl_id s u = (Inl e, s))
   \<or> (\<exists>b. session_get_bowl s bowl_id = Some b \<and> 1 \<le> bowl_id
        \<and> api_delete_bowl bowl_id s u =
            (Inr NoContent, session_delete_bowl (delete_bowl_ingredients bowl_id s) b))"
  by (auto simp: api_delete_bowl_def get_and_verify_bowl_def api_verify_bowl_access_def
      split: option.splits)

lemma ui_delete_bowl_cases:
  "(\<exists>e. ui_delete_bowl bowl_id s u = (Inl e, s))
   \<or> (\<exists>b. session_get_bowl s bowl_id = Some b
        \<and> snd (ui_delete_bowl bowl_id s u) =
            session_delete_bowl (delete_bowl_ingredients bowl_id s) b)"
  by (auto simp: ui_delete_bowl_def ui_verify_bowl_access_def delete_bowl_ingredients_def
      Let_def split: option.splits)

lemma deleted_bowl:
  assumes "session_get_bowl s bowl_id = Some b"
  defines "s' \<equiv> session_delete_bowl (delete_bowl_ingredients bowl_id s) b"
  shows "session_get_bowl s' bowl_id = None" and "spec_bowl_lines s' bowl_id = []"
  using session_get_bowl_id [OF assms(1)] session_delete_bowl_gone [of _ b]
  by (auto simp: s'_def session_delete_bowl_lines delete_bowl_ingredients_lines)

lemma remove_ingredient_from_bowl_missing:
  "session_get_bowl s bowl_id = None \<Longrightarrow>
   remove_ingredient_from_bowl bowl_id i s u = (Inl (HTTPException 404 ''Bowl not found''), s)"
  by (simp add: remove_ingredient_from_bowl_def ui_verify_bowl_access_def)

lemma get_bowl_missing:
  "session_get_bowl s bowl_id = None \<Longrightarrow> 1 \<le> bowl_id \<Longrightarrow>
   get_bowl bowl_id s u = (Inl (HTTPException 404 ''Bowl not found''), s)"
  by (simp add: get_bowl_def get_and_verify_bowl_def api_verify_bowl_access_def)

text \<open>
  C7, as the code has it. \<open>calculate_nutrition\<close> does not look the bowl up and never
  fails: for a bowl id without lines, that of no bowl included, it returns the empty
  result. NotFound comes from the access check that the handlers run before they
  aggregate. A successful delete, through the API or the page, removes the bowl and all
  lines of its id; afterwards the handlers answer 404 Bowl not found for that id, and
  \<open>calculate_nutrition\<close> on it returns the empty result.
\<close>

theorem delete_bowl_then_not_found:
  "(spec_bowl_lines s bowl_id = [] \<longrightarrow>
      calculate_nutrition bowl_id user_id s = spec_empty_result)
   \<and> (session_get_bowl s bowl_id = None \<longrightarrow>
        remove_ingredient_from_bowl bowl_id i s u =
          (Inl (HTTPException 404 ''Bowl not found''), s))
   \<and> (api_delete_bowl bowl_id s u = (Inr x, s') \<longrightarrow>
        session_get_bowl s' bowl_id = None \<and> spec_bowl_lines s' bowl_id = []
        \<and> calculate_nutrition bowl_id user_id s' = spec_empty_result
        \<and> get_bowl bowl_id s' u = (Inl (HTTPException 404 ''Bowl not found''), s')
        \<and> remove_ingredient_from_bowl bowl_id i s' u =
            (Inl (HTTPException 404 ''Bowl not found''), s'))
   \<and> (ui_delete_bowl bowl_id s u = (Inr y, s') \<longrightarrow>
        session_get_bowl s' bowl_id = None \<and> spec_bowl_lines s' bowl_id = []
        \<and> calculate_nutrition bowl_id user_id s' = spec_empty_result
        \<and> remove_ingredient_from_bowl bowl_id i s' u =
            (Inl (HTTPException 404 ''Bowl not found''), s'))"
proof (intro conjI impI)
  assume "api_delete_bowl bowl_id s u = (Inr x, s')"
  with api_delete_bowl_cases [of bowl_id s u] obtain b
    where b: "session_get_bowl s bowl_id = Some b" and ge: "1 \<le> bowl_id"
      and s': "s' = session_delete_bowl (delete_bowl_ingredients bowl_id s) b"
    by auto
  show gone: "session_get_bowl s' bowl_id = None" and lines: "spec_bowl_lines s' bowl_id = []"
    using deleted_bowl [OF b] s' by simp_all
  show "calculate_nutrition bowl_id user_id s' = spec_empty_result"
    using calculate_nutrition_no_lines [OF lines] .
  show "get_bowl bowl_id s' u = (Inl (HTTPException 404 ''Bowl not found''), s')"
    using get_bowl_missing [OF gone ge] .
  show "remove_ingredient_from_bowl bowl_id i s' u =
            (Inl (HTTPException 404 ''Bowl not found''), s')"
    using remove_ingredient_from_bowl_missing [OF gone] .
next
  assume a: "ui_delete_bowl bowl_id s u = (Inr y, s')"
  with ui_delete_bowl_cases [of bowl_id s u] obtain b
    where b: "session_get_bowl s bowl_id = Some b"
      and s': "s' = session_delete_bowl (delete_bowl_ingredients bowl_id s) b"
    by auto
  show gone: "session_get_bowl s' bowl_id = None" and lines: "spec_bowl_lines s' bowl_id = []"
    using deleted_bowl [OF b] s' by simp_all
  show "calculate_nutrition bowl_id user_id s' = spec_empty_result"
    using calculate_nutrition_no_lines [OF lines] .
  show "remove_ingredient_from_bowl bowl_id i s' u =
            (Inl (HTTPException 404 ''Bowl not found''), s')"
    using remove_ingredient_from_bowl_missing [OF gone] .
qed (simp_all add: calculate_nutrition_no_lines remove_ingredient_from_bowl_missing)

theorem delete_bowl_then_not_found_witness:
  "fst (api_delete_bowl 1 example_db ann) = Inr NoContent
   \<and> session_get_bowl (snd (api_delete_bowl 1 example_db ann)) 1 = None
   \<and> spec_bowl_lines (snd (api_delete_bowl 1 example_db ann)) 1 = []
   \<and> calculate_nutrition 1 1 (snd (api_delete_bowl 1 example_db ann)) = spec_empty_result
   \<and> fst (get_bowl 1 (snd (api_delete_bowl 1 example_db ann)) ann) =
       Inl (HTTPException 404 ''Bowl not found'')"
proof -
  have f: "fst (api_delete_bowl 1 example_db ann) = Inr NoContent"
    by (simp add: api_delete_bowl_def get_and_verify_bowl_def api_verify_bowl_access_def
        session_get_bowl_def example_db_def ann_def)
  then have c: "api_delete_bowl 1 example_db ann =
      (Inr NoContent, snd (api_delete_bowl 1 example_db ann))"
    by (simp add: prod_eq_iff)
  from delete_bowl_then_not_found [where bowl_id = 1 and s = example_db and u = ann
      and x = NoContent and s' = "snd (api_delete_bowl 1 example_db ann)" and user_id = 1
      and i = 4 and y = "SavedBowls []"] c
  show ?thesis
    using f by simp
qed

text \<open>C7 as stated fails: no bowl has id 5, and aggregating bowl id 5 returns a result.\<close>

theorem calculate_nutrition_missing_bowl_counterexample:
  "session_get_bowl example_db 5 = None
   \<and> calculate_nutrition 5 1 example_db =
       \<lparr>ingredients = [], total_calories = 0, total_protein = 0, total_fiber = 0,
        total_sugar = 0, tags = [''Low Protein'', ''Low Fiber'', ''Low Sugar'']\<rparr>"
  by (simp add: session_get_bowl_def example_db_def calculate_nutrition_def
      round2_def round_half_even_def protein_tag_def fiber_tag_def sugar_tag_def)

section \<open>Access control\<close>









section \<open>Renaming a bowl\<close>









section \<open>Quantities\<close>

text \<open>
  C9 on the code. The API handler refuses a quantity that is not positive and writes
  nothing. The page handler takes it: for the owner of bowl 1, quantity 0 for an
  ingredient not yet in the bowl inserts a line with quantity 0, and quantity -1 for an
  ingredient in the bowl sets its line to -1.
\<close>

theorem add_ingredient_to_bowl_nonpositive_quantity:
  "add_ingredient \<lparr>air_bowl_id = 1, air_ingredient_id = 7, air_quantity = 0\<rparr> example_db ann =
     (Inl RequestValidationError, example_db)
   \<and> spec_quantities example_db 1 7 = []
   \<and> spec_quantities (snd (add_ingredient_to_bowl (Some 1) 7 0 example_db ann)) 1 7 = [0]
   \<and> spec_quantities example_db 1 4 = [2]
   \<and> spec_quantities (snd (add_ingredient_to_bowl (Some 1) 4 (- 1) example_db ann)) 1 4 = [- 1]"
  by (simp add: add_ingredient_def add_ingredient_to_bowl_def bowl_for_request_def
      ui_verify_bowl_access_def session_get_bowl_def session_get_ingredient_def
      select_bowl_ingredient_def session_update_bowl_ingredient_def
      session_add_bowl_ingredient_def spec_quantities_def example_db_def ann_def Let_def)

end
